theory Spec2Isabelle
  imports Complex_Main "HOL-Library.Sublist"
begin

chapter \<open>HeroCapture content script: the hero fingerprint extractor\<close>

text \<open>
  A shallow embedding of \<^verbatim>\<open>extractFingerprint\<close> of
  \<^verbatim>\<open>src/content/content-script.js\<close>.

  Numbers. JavaScript numbers are IEEE doubles; the geometry the extractor reads
  (bounding boxes, the viewport) is modelled by exact rationals (\<^typ>\<open>rat\<close>).
  Comparisons, \<^verbatim>\<open>Math.min\<close> and \<^verbatim>\<open>Math.max\<close> are exact on doubles, so the
  control flow of the model is the control flow of the code; the products and sums with
  the tuning constants (\<^verbatim>\<open>viewportHeight * 1.15\<close>, \<^verbatim>\<open>bottom + 420\<close>) are taken
  unrounded. No value is ever \<^verbatim>\<open>NaN\<close>: a bounding box has finite coordinates.

  Strings. A JavaScript string is modelled by \<^typ>\<open>string\<close>, one \<^typ>\<open>char\<close> per
  code unit, for text whose code units lie in U+0000..U+00FF.
\<close>

section \<open>Geometry and the viewport\<close>

text \<open>The result of \<^verbatim>\<open>getBoundingClientRect()\<close>, as far as the extractor reads it.\<close>

record rect =
  rtop :: rat
  rleft :: rat
  rwidth :: rat
  rheight :: rat
  rbottom :: rat

text \<open>\<^verbatim>\<open>x || d\<close> on numbers: \<^verbatim>\<open>0\<close> is the one falsy finite number.\<close>

definition num_or :: "rat \<Rightarrow> rat \<Rightarrow> rat" where
  "num_or x d = (if x = 0 then d else x)"



section \<open>Hero boundary detector (lines 24--60)\<close>

text \<open>Line 27: \<^verbatim>\<open>const heroMaxBottom = viewportHeight * 1.15\<close>.\<close>

definition heroMaxBottom :: "rat \<Rightarrow> rat" where
  "heroMaxBottom vh = vh * (115 / 100)"

text \<open>
  A child of \<^verbatim>\<open>document.body\<close> as the boundary detector sees it: its own box and the
  boxes of its element children.
\<close>

datatype wrapper = Wrapper (w_rect: rect) (w_children: "rect list")



text \<open>
  Lines 55--60, the loop over the sections in order, \<open>hb\<close> being the running
  \<^verbatim>\<open>heroBottom\<close>:
  \<^verbatim>\<open>
  for (const s of sections) {
    if (s.bottom <= 0) continue;
    if (s.top >= heroMaxBottom) break;
    heroBottom = Math.min(heroMaxBottom, Math.max(heroBottom, s.bottom));
  }\<close>
\<close>

fun heroLoop :: "rat \<Rightarrow> rat \<Rightarrow> rect list \<Rightarrow> rat" where
  "heroLoop cap hb [] = hb"
| "heroLoop cap hb (s # ss) =
     (if rbottom s \<le> 0 then heroLoop cap hb ss
      else if rtop s \<ge> cap then hb
      else heroLoop cap (min cap (max hb (rbottom s))) ss)"

definition heroBottom :: "rat \<Rightarrow> rect list \<Rightarrow> rat" where
  "heroBottom vh sections = heroLoop (heroMaxBottom vh) vh sections"

text \<open>
  The boundary as the specification words it: the largest bottom edge among the
  sections with \<open>top < 1.15 vh\<close> and \<open>bottom > 0\<close>, capped; \<open>vh\<close> when there is none.
\<close>

definition qualifying :: "rat \<Rightarrow> rect \<Rightarrow> bool" where
  "qualifying vh s = (rtop s < heroMaxBottom vh \<and> 0 < rbottom s)"

definition spec_heroBottom :: "rat \<Rightarrow> rect list \<Rightarrow> rat" where
  "spec_heroBottom vh sections =
     (let q = filter (qualifying vh) sections
      in if q = [] then vh else min (heroMaxBottom vh) (Max (set (map rbottom q))))"

text \<open>
  The sections the loop really looks at: those before the first on-screen section that
  starts at or below the cap (where the loop breaks), the off-screen ones left out.
\<close>

definition scanned :: "rat \<Rightarrow> rect list \<Rightarrow> rect list" where
  "scanned cap sections =
     filter (\<lambda>s. 0 < rbottom s) (takeWhile (\<lambda>s. rbottom s \<le> 0 \<or> rtop s < cap) sections)"

text \<open>
  Line 864 and line 1665: \<^verbatim>\<open>Math.min(1, heroBottom / viewportHeight)\<close>, reported as
  \<^verbatim>\<open>Number(heroHeightRatio.toFixed(2))\<close>. \<^verbatim>\<open>toFixed(2)\<close> rounds to the nearest
  hundredth, a tie going to the larger magnitude.
\<close>

definition toFixed2 :: "rat \<Rightarrow> rat" where
  "toFixed2 x =
     (if x < 0 then - (of_int \<lfloor>- x * 100 + 1 / 2\<rfloor> / 100)
      else of_int \<lfloor>x * 100 + 1 / 2\<rfloor> / 100)"

definition heroHeightRatio :: "rat \<Rightarrow> rect list \<Rightarrow> rat" where
  "heroHeightRatio vh sections = min 1 (heroBottom vh sections / vh)"

definition hero_height_ratio :: "rat \<Rightarrow> rect list \<Rightarrow> rat" where
  "hero_height_ratio vh sections = toFixed2 (heroHeightRatio vh sections)"

section \<open>Call-to-action candidates: the positional filter (lines 337--376)\<close>

text \<open>
  The record built for every call-to-action element (lines 341--350):
  \<^verbatim>\<open>{ text, top, left, area, isButton }\<close>.
\<close>

record cta =
  c_text :: string
  c_top :: rat
  c_left :: rat
  c_area :: rat
  c_isButton :: bool

text \<open>
  Lines 370--376, the predicate of \<^verbatim>\<open>filteredCtas.filter\<close>; \<open>headlineRect\<close> is
  \<^verbatim>\<open>null\<close> when no headline element was found:
  \<^verbatim>\<open>
  if (c.top < 120) return false;
  if (!headlineRect) return true;
  if (c.top > viewportHeight * 0.8 && c.top > (headlineRect.bottom || 0) + 420) return false;
  return c.top >= headlineRect.top - 40 && c.top <= headlineRect.bottom + 420;\<close>
\<close>

definition keepHeroCta :: "rat \<Rightarrow> rect option \<Rightarrow> cta \<Rightarrow> bool" where
  "keepHeroCta vh headlineRect c =
     (if c_top c < 120 then False
      else case headlineRect of
        None \<Rightarrow> True
      | Some h \<Rightarrow>
          if c_top c > vh * (8 / 10) \<and> c_top c > num_or (rbottom h) 0 + 420 then False
          else c_top c \<ge> rtop h - 40 \<and> c_top c \<le> rbottom h + 420)"


text \<open>
  The filter as the specification words it: with a headline box, the top edge lies in
  \<open>[headlineTop - 40, headlineBottom + 420]\<close>, and a candidate in the bottom fifth of the
  viewport is dropped unless it is that close to the headline; with no headline box
  every candidate is kept.
\<close>

definition spec_keepHeroCta :: "rat \<Rightarrow> rect option \<Rightarrow> cta \<Rightarrow> bool" where
  "spec_keepHeroCta vh headlineRect c =
     (case headlineRect of
        None \<Rightarrow> True
      | Some h \<Rightarrow>
          (rtop h - 40 \<le> c_top c \<and> c_top c \<le> rbottom h + 420) \<and>
          (c_top c \<le> vh * (8 / 10) \<or> c_top c \<le> rbottom h + 420))"

section \<open>Stack fingerprint detector (lines 671--862)\<close>

text \<open>
  What the detector reads from the page, one field for the page-dependent part of each
  \<^verbatim>\<open>if\<close> of lines 674--862 (a \<^verbatim>\<open>window\<close> global, a \<^verbatim>\<open>querySelector\<close> hit, a
  class-name pattern count), in source order.
\<close>

record stack_signals =
  sg_hasNext :: bool
  sg_webflow :: bool
  sg_framer :: bool
  sg_gatsby :: bool
  sg_nuxt :: bool
  sg_remix :: bool
  sg_astro :: bool
  sg_hugo :: bool
  sg_sveltekit :: bool
  sg_wordpress :: bool
  sg_shopify :: bool
  sg_wix :: bool
  sg_squarespace :: bool
  sg_vitepress :: bool
  sg_vue :: bool
  sg_hasReact :: bool
  sg_angular :: bool
  sg_tailwindClasses :: bool
  sg_bootstrapHits :: nat
  sg_materialUi :: bool
  sg_chakraUi :: bool
  sg_radix :: bool
  sg_antDesign :: bool
  sg_emotion :: bool
  sg_styledComponents :: bool
  sg_cssModules :: bool
  sg_vercel :: bool
  sg_netlify :: bool
  sg_cloudflare :: bool
  sg_awsAmplify :: bool
  sg_gsap :: bool
  sg_lottie :: bool
  sg_framerMotion :: bool

text \<open>
  One rule per \<^verbatim>\<open>if (...) detectedStack.push(tag)\<close>: the condition, which may read
  the tags pushed so far (\<^verbatim>\<open>detectedStack.includes\<close>), and the tag.
\<close>

type_synonym stack_rule = "(string list \<Rightarrow> bool) \<times> string"

definition push_rule :: "stack_rule \<Rightarrow> string list \<Rightarrow> string list" where
  "push_rule r ds = (if fst r ds then ds @ [snd r] else ds)"

definition run_rules :: "stack_rule list \<Rightarrow> string list \<Rightarrow> string list" where
  "run_rules rules ds = fold push_rule rules ds"

text \<open>Lines 674--740: frameworks and site generators, up to VitePress.\<close>

definition framework_rules :: "stack_signals \<Rightarrow> stack_rule list" where
  "framework_rules g =
     [(\<lambda>ds. sg_hasNext g \<and> ''nextjs'' \<notin> set ds, ''nextjs''),
      (\<lambda>ds. sg_webflow g, ''webflow''),
      (\<lambda>ds. sg_framer g, ''framer''),
      (\<lambda>ds. sg_gatsby g, ''gatsby''),
      (\<lambda>ds. sg_nuxt g, ''nuxt''),
      (\<lambda>ds. sg_remix g, ''remix''),
      (\<lambda>ds. sg_astro g, ''astro''),
      (\<lambda>ds. sg_hugo g, ''hugo''),
      (\<lambda>ds. sg_sveltekit g, ''sveltekit''),
      (\<lambda>ds. sg_wordpress g, ''wordpress''),
      (\<lambda>ds. sg_shopify g, ''shopify''),
      (\<lambda>ds. sg_wix g, ''wix''),
      (\<lambda>ds. sg_squarespace g, ''squarespace''),
      (\<lambda>ds. sg_vitepress g, ''vitepress'')]"

text \<open>Lines 741--748: generic Vue, skipped when Nuxt or VitePress is already tagged.\<close>

definition vue_rule :: "stack_signals \<Rightarrow> stack_rule" where
  "vue_rule g =
     (\<lambda>ds. ''nuxt'' \<notin> set ds \<and> ''vitepress'' \<notin> set ds \<and> sg_vue g, ''vue'')"

text \<open>Lines 749--761: generic React, skipped when Next, Gatsby or Remix is tagged.\<close>

definition react_rule :: "stack_signals \<Rightarrow> stack_rule" where
  "react_rule g =
     (\<lambda>ds. (''nextjs'' \<notin> set ds \<and> ''gatsby'' \<notin> set ds \<and> ''remix'' \<notin> set ds)
            \<and> sg_hasReact g, ''react'')"

text \<open>Lines 762--862: Angular, the CSS and UI libraries, hosting, animation.\<close>

definition later_rules :: "stack_signals \<Rightarrow> stack_rule list" where
  "later_rules g =
     [(\<lambda>ds. sg_angular g, ''angular''),
      (\<lambda>ds. sg_tailwindClasses g, ''tailwind''),
      (\<lambda>ds. sg_bootstrapHits g \<ge> 3, ''bootstrap''),
      (\<lambda>ds. sg_materialUi g, ''material-ui''),
      (\<lambda>ds. sg_chakraUi g, ''chakra-ui''),
      (\<lambda>ds. sg_radix g, ''radix''),
      (\<lambda>ds. sg_antDesign g, ''ant-design''),
      (\<lambda>ds. sg_emotion g, ''emotion''),
      (\<lambda>ds. sg_styledComponents g, ''styled-components''),
      (\<lambda>ds. sg_cssModules g, ''css-modules''),
      (\<lambda>ds. sg_vercel g, ''vercel''),
      (\<lambda>ds. sg_netlify g, ''netlify''),
      (\<lambda>ds. sg_cloudflare g, ''cloudflare''),
      (\<lambda>ds. sg_awsAmplify g, ''aws-amplify''),
      (\<lambda>ds. sg_gsap g, ''gsap''),
      (\<lambda>ds. sg_lottie g, ''lottie''),
      (\<lambda>ds. ''framer'' \<notin> set ds \<and> sg_framerMotion g, ''framer-motion'')]"

text \<open>Line 671, \<^verbatim>\<open>const detectedStack = []\<close>, and every push after it.\<close>

definition detectedStack :: "stack_signals \<Rightarrow> string list" where
  "detectedStack g =
     run_rules (framework_rules g @ vue_rule g # react_rule g # later_rules g) []"



section \<open>Strings: whitespace, trimming, splitting\<close>

text \<open>
  The characters \<^verbatim>\<open>\s\<close> matches and \<^verbatim>\<open>trim()\<close> strips, among U+0000..U+00FF: tab,
  line feed, vertical tab, form feed, carriage return, space, no-break space.
\<close>

definition is_ws :: "char \<Rightarrow> bool" where
  "is_ws c = (c \<in> set [CHR 0x09, CHR 0x0A, CHR 0x0B, CHR 0x0C, CHR 0x0D, CHR '' '', CHR 0xA0])"

text \<open>\<^verbatim>\<open>String.prototype.trim\<close>.\<close>

definition trimEnd :: "string \<Rightarrow> string" where
  "trimEnd s = rev (dropWhile is_ws (rev s))"

definition trim :: "string \<Rightarrow> string" where
  "trim s = dropWhile is_ws (trimEnd s)"








section \<open>Headline length: rejection and truncation (lines 182--193, 234--238)\<close>







section \<open>Regular expressions\<close>

text \<open>
  The regular expressions of the script, as a datatype, with a backtracking matcher. A
  match state is the character before the current position (\<open>None\<close> at the start of
  the text) and the text still to read: \<^verbatim>\<open>^\<close>, \<^verbatim>\<open>$\<close> and \<^verbatim>\<open>\b\<close> need no more.
  \<open>ends r s\<close> lists the states in which a match of \<open>r\<close> begun in \<open>s\<close> can end, in the
  order in which backtracking finds them (left alternative first, greedy star).
\<close>

definition is_digit :: "char \<Rightarrow> bool" where
  "is_digit c = (c \<in> set ''0123456789'')"

text \<open>
  Case folding of the \<^verbatim>\<open>i\<close> flag: every pattern of the script is ASCII, and an ASCII
  pattern letter matches exactly its two cases.
\<close>

definition lower_ascii :: "char \<Rightarrow> char" where
  "lower_ascii c =
     (case map_of (zip ''ABCDEFGHIJKLMNOPQRSTUVWXYZ'' ''abcdefghijklmnopqrstuvwxyz'') c of
        Some d \<Rightarrow> d | None \<Rightarrow> c)"

text \<open>\<^verbatim>\<open>\w\<close>: letters, digits and the underscore.\<close>

definition is_word :: "char \<Rightarrow> bool" where
  "is_word c = (lower_ascii c \<in> set ''abcdefghijklmnopqrstuvwxyz0123456789_'')"

datatype rx =
    Pred "char \<Rightarrow> bool"
  | Bol
  | Eol
  | WordB
  | Eps
  | Seq rx rx
  | Alt rx rx
  | Star rx

type_synonym mstate = "char option \<times> string"

text \<open>
  Iterating a body: an iteration that consumes nothing is not repeated, so the length
  of the remaining text bounds the number of iterations and serves as fuel.
\<close>

fun iter_star :: "nat \<Rightarrow> (mstate \<Rightarrow> mstate list) \<Rightarrow> mstate \<Rightarrow> mstate list" where
  "iter_star 0 f s = [s]"
| "iter_star (Suc n) f s =
     concat (map (iter_star n f) (filter (\<lambda>s'. length (snd s') < length (snd s)) (f s))) @ [s]"

definition at_boundary :: "mstate \<Rightarrow> bool" where
  "at_boundary s =
     ((case fst s of None \<Rightarrow> False | Some c \<Rightarrow> is_word c) \<noteq>
      (case snd s of [] \<Rightarrow> False | c # _ \<Rightarrow> is_word c))"

fun ends :: "rx \<Rightarrow> mstate \<Rightarrow> mstate list" where
  "ends (Pred p) s = (case snd s of [] \<Rightarrow> [] | c # cs \<Rightarrow> if p c then [(Some c, cs)] else [])"
| "ends Bol s = (if fst s = None then [s] else [])"
| "ends Eol s = (if snd s = [] then [s] else [])"
| "ends WordB s = (if at_boundary s then [s] else [])"
| "ends Eps s = [s]"
| "ends (Seq a b) s = concat (map (ends b) (ends a s))"
| "ends (Alt a b) s = ends a s @ ends b s"
| "ends (Star a) s = iter_star (length (snd s)) (ends a) s"

text \<open>\<^verbatim>\<open>regex.test(text)\<close> for a regex without the \<^verbatim>\<open>g\<close> flag: a match at some start.\<close>

fun search :: "rx \<Rightarrow> char option \<Rightarrow> string \<Rightarrow> bool" where
  "search r p [] = (ends r (p, []) \<noteq> [])"
| "search r p (c # cs) = (ends r (p, c # cs) \<noteq> [] \<or> search r (Some c) cs)"

definition test :: "rx \<Rightarrow> string \<Rightarrow> bool" where
  "test r s = search r None s"

text \<open>Notation for the patterns.\<close>

definition chr :: "char \<Rightarrow> rx" where
  "chr c = Pred (\<lambda>x. x = c)"

definition chrI :: "char \<Rightarrow> rx" where
  "chrI c = Pred (\<lambda>x. lower_ascii x = lower_ascii c)"

definition digit :: rx where
  "digit = Pred is_digit"

definition space :: rx where
  "space = Pred is_ws"

definition plus :: "rx \<Rightarrow> rx" where
  "plus r = Seq r (Star r)"

definition opt :: "rx \<Rightarrow> rx" where
  "opt r = Alt r Eps"

fun seqs :: "rx list \<Rightarrow> rx" where
  "seqs [] = Eps"
| "seqs (r # rs) = Seq r (seqs rs)"

fun alts :: "rx list \<Rightarrow> rx" where
  "alts [] = Pred (\<lambda>c. False)"
| "alts [r] = r"
| "alts (r # rs) = Alt r (alts rs)"

text \<open>A literal under the \<^verbatim>\<open>i\<close> flag.\<close>

fun strI :: "string \<Rightarrow> rx" where
  "strI [] = Eps"
| "strI (c # cs) = Seq (chrI c) (strI cs)"

text \<open>
  Literal words with \<^verbatim>\<open>\s*\<close> between them, under the \<^verbatim>\<open>i\<close> flag:
  \<open>phrase [''get'', ''started'']\<close> is \<^verbatim>\<open>get\s*started\<close>.
\<close>

fun phrase :: "string list \<Rightarrow> rx" where
  "phrase [] = Eps"
| "phrase [w] = strI w"
| "phrase (w # ws) = Seq (strI w) (Seq (Star space) (phrase ws))"

text \<open>An alternation of such phrases: \<^verbatim>\<open>(a|b\s*c|...)\<close>.\<close>

definition phrases :: "string list list \<Rightarrow> rx" where
  "phrases ps = alts (map phrase ps)"

text \<open>\<^verbatim>\<open>String.prototype.toLowerCase\<close> on U+0000..U+00FF.\<close>

definition lower_char :: "char \<Rightarrow> char" where
  "lower_char c =
     (case map_of (zip
        [CHR 0xC0, CHR 0xC1, CHR 0xC2, CHR 0xC3, CHR 0xC4, CHR 0xC5, CHR 0xC6, CHR 0xC7,
         CHR 0xC8, CHR 0xC9, CHR 0xCA, CHR 0xCB, CHR 0xCC, CHR 0xCD, CHR 0xCE, CHR 0xCF,
         CHR 0xD0, CHR 0xD1, CHR 0xD2, CHR 0xD3, CHR 0xD4, CHR 0xD5, CHR 0xD6,
         CHR 0xD8, CHR 0xD9, CHR 0xDA, CHR 0xDB, CHR 0xDC, CHR 0xDD, CHR 0xDE]
        [CHR 0xE0, CHR 0xE1, CHR 0xE2, CHR 0xE3, CHR 0xE4, CHR 0xE5, CHR 0xE6, CHR 0xE7,
         CHR 0xE8, CHR 0xE9, CHR 0xEA, CHR 0xEB, CHR 0xEC, CHR 0xED, CHR 0xEE, CHR 0xEF,
         CHR 0xF0, CHR 0xF1, CHR 0xF2, CHR 0xF3, CHR 0xF4, CHR 0xF5, CHR 0xF6,
         CHR 0xF8, CHR 0xF9, CHR 0xFA, CHR 0xFB, CHR 0xFC, CHR 0xFD, CHR 0xFE]) c of
        Some d \<Rightarrow> d | None \<Rightarrow> lower_ascii c)"

definition toLowerCase :: "string \<Rightarrow> string" where
  "toLowerCase s = map lower_char s"

section \<open>Call-to-action ranking (lines 378--428)\<close>

text \<open>
  Line 379:
  \<^verbatim>\<open>/(sign\s*(in|up)\s*with|continue\s*with|log\s*in\s*with)\s*(google|apple|github|microsoft)/i\<close>
\<close>

definition oauthCtaRegex :: rx where
  "oauthCtaRegex =
     seqs [alts [seqs [strI ''sign'', Star space, alts [strI ''in'', strI ''up''],
                       Star space, strI ''with''],
                 phrase [''continue'', ''with''],
                 phrase [''log'', ''in'', ''with'']],
           Star space,
           alts [strI ''google'', strI ''apple'', strI ''github'', strI ''microsoft'']]"

text \<open>
  Line 381:
  \<^verbatim>\<open>/^(log\s*in|sign\s*(in|up)|create|register|get\s*started|start|try|buy|join|subscribe|download|explore|book|launch|submit|talk\s*to|contact|request|schedule|demo|watch|deploy|install|begin)/i\<close>
\<close>

definition primaryCtaRegex :: rx where
  "primaryCtaRegex =
     Seq Bol (alts
       [phrase [''log'', ''in''],
        seqs [strI ''sign'', Star space, alts [strI ''in'', strI ''up'']],
        strI ''create'', strI ''register'', phrase [''get'', ''started''], strI ''start'',
        strI ''try'', strI ''buy'', strI ''join'', strI ''subscribe'', strI ''download'',
        strI ''explore'', strI ''book'', strI ''launch'', strI ''submit'',
        phrase [''talk'', ''to''], strI ''contact'', strI ''request'', strI ''schedule'',
        strI ''demo'', strI ''watch'', strI ''deploy'', strI ''install'', strI ''begin''])"

text \<open>
  Line 386:
  \<^verbatim>\<open>/^(deploy|start|try|get\s*started|sign\s*up|create|register|join|launch|download|install|begin|buy|subscribe)/i\<close>
\<close>

definition selfServeRegex :: rx where
  "selfServeRegex =
     Seq Bol (phrases
       [[''deploy''], [''start''], [''try''], [''get'', ''started''], [''sign'', ''up''],
        [''create''], [''register''], [''join''], [''launch''], [''download''],
        [''install''], [''begin''], [''buy''], [''subscribe'']])"

text \<open>
  Line 390:
  \<^verbatim>\<open>/^(book|schedule|request|contact|talk\s*to|demo|get\s*demo|book\s*demo|request\s*demo)/i\<close>
\<close>

definition salesLedRegex :: rx where
  "salesLedRegex =
     Seq Bol (phrases
       [[''book''], [''schedule''], [''request''], [''contact''], [''talk'', ''to''],
        [''demo''], [''get'', ''demo''], [''book'', ''demo''], [''request'', ''demo'']])"

text \<open>Line 394: \<^verbatim>\<open>/^(learn\s*more|explore|watch|see\s*more|view\s*details)/i\<close>\<close>

definition informationalRegex :: rx where
  "informationalRegex =
     Seq Bol (phrases
       [[''learn'', ''more''], [''explore''], [''watch''], [''see'', ''more''],
        [''view'', ''details'']])"

text \<open>
  Lines 382--398:
  \<^verbatim>\<open>
  const ctaPriority = (text) => {
    const t = text.trim().toLowerCase();
    if (!t) return 0;
    if (/^(deploy|start|...)/i.test(t)) return 3;
    if (/^(book|schedule|...)/i.test(t)) return 2;
    if (/^(learn\s*more|...)/i.test(t)) return 1;
    return primaryCtaRegex.test(t) ? 1 : 0;
  };\<close>
\<close>

definition ctaPriority :: "string \<Rightarrow> int" where
  "ctaPriority text =
     (let t = toLowerCase (trim text) in
      if t = [] then 0
      else if test selfServeRegex t then 3
      else if test salesLedRegex t then 2
      else if test informationalRegex t then 1
      else if test primaryCtaRegex t then 1 else 0)"

text \<open>
  Lines 399--420, the comparison function handed to \<^verbatim>\<open>sort\<close>; only the sign of its
  result is used.
  \<^verbatim>\<open>
  const aIsOAuth = oauthCtaRegex.test(a.text);
  const bIsOAuth = oauthCtaRegex.test(b.text);
  if (aIsOAuth !== bIsOAuth) return aIsOAuth ? 1 : -1;
  if (a.isButton !== b.isButton) return a.isButton ? -1 : 1;
  const aPriority = ctaPriority(a.text);
  const bPriority = ctaPriority(b.text);
  if (aPriority !== bPriority) return bPriority - aPriority;
  if (headlineRect) {
    const idealTop = headlineRect.bottom + 20;
    const aDist = Math.abs(a.top - idealTop);
    const bDist = Math.abs(b.top - idealTop);
    if (Math.abs(aDist - bDist) > 30) return aDist - bDist;
  }
  if (a.area !== b.area) return b.area - a.area;
  return a.left - b.left;\<close>
\<close>

definition tieBreak :: "cta \<Rightarrow> cta \<Rightarrow> rat" where
  "tieBreak a b = (if c_area a \<noteq> c_area b then c_area b - c_area a else c_left a - c_left b)"

definition ctaCompare :: "rect option \<Rightarrow> cta \<Rightarrow> cta \<Rightarrow> rat" where
  "ctaCompare headlineRect a b =
     (let aIsOAuth = test oauthCtaRegex (c_text a);
          bIsOAuth = test oauthCtaRegex (c_text b)
      in if aIsOAuth \<noteq> bIsOAuth then (if aIsOAuth then 1 else - 1)
      else if c_isButton a \<noteq> c_isButton b then (if c_isButton a then - 1 else 1)
      else let aPriority = ctaPriority (c_text a);
               bPriority = ctaPriority (c_text b)
      in if aPriority \<noteq> bPriority then of_int (bPriority - aPriority)
      else case headlineRect of
        None \<Rightarrow> tieBreak a b
      | Some h \<Rightarrow>
          let idealTop = rbottom h + 20;
              aDist = \<bar>c_top a - idealTop\<bar>;
              bDist = \<bar>c_top b - idealTop\<bar>
          in if \<bar>aDist - bDist\<bar> > 30 then aDist - bDist else tieBreak a b)"

text \<open>
  \<^verbatim>\<open>Array.prototype.sort(comparefn)\<close>. The language fixes the result (the stable sorted
  order) when the comparison function is consistent; this one is not, its distance
  criterion being blind to differences up to 30 pixels, and the order is then left to
  the engine. The model is the stable insertion sort; the ranking theorem below uses of
  it only that it permutes its input and never leaves an element before one that the
  first three criteria of the comparison put strictly ahead.
\<close>

fun insort_cmp :: "('a \<Rightarrow> 'a \<Rightarrow> rat) \<Rightarrow> 'a \<Rightarrow> 'a list \<Rightarrow> 'a list" where
  "insort_cmp cmp x [] = [x]"
| "insort_cmp cmp x (y # ys) =
     (if cmp x y \<le> 0 then x # y # ys else y # insort_cmp cmp x ys)"

definition sort_cmp :: "('a \<Rightarrow> 'a \<Rightarrow> rat) \<Rightarrow> 'a list \<Rightarrow> 'a list" where
  "sort_cmp cmp xs = foldr (insort_cmp cmp) xs []"

text \<open>
  The sort of line 399 moves objects; to follow one of them, each candidate is paired
  with its index in \<^verbatim>\<open>heroCtaCandidates\<close> before the sort, which compares the
  candidates only.
\<close>

definition rankCtas :: "rect option \<Rightarrow> cta list \<Rightarrow> (nat \<times> cta) list" where
  "rankCtas headlineRect cs =
     sort_cmp (\<lambda>a b. ctaCompare headlineRect (snd a) (snd b)) (zip [0..<length cs] cs)"







section \<open>Dark-theme detection (lines 1427--1432, 1572--1649)\<close>




















section \<open>The document as the extractor reads it\<close>

text \<open>
  The elements of the document in document order, as \<^verbatim>\<open>document.querySelectorAll("*")\<close>
  lists them; an element is named by its index in that list. Each entry holds what the
  extractor reads of the element: tag name, attributes, bounding box, the computed style
  properties it looks at, the rendered text, and its place in the tree. The elements
  \<^verbatim>\<open>html\<close>, \<^verbatim>\<open>head\<close> and \<^verbatim>\<open>body\<close> and the contents of \<^verbatim>\<open>head\<close> are not
  listed: the model takes them to match none of the selectors of the script, and the
  body to be in normal flow.

  One text that the script computes on a clone of the element is taken as read from
  the element: \<open>e_cloneText\<close> is \<^verbatim>\<open>clone.innerText || ""\<close> of lines 163--175, the text
  of the clone after the skip links and, when there are three or more, the links and
  buttons are removed.
\<close>

record elem =
  e_tagName :: string
  e_attrs :: "(string \<times> string) list"
  e_rect :: rect
  e_display :: string
  e_visibility :: string
  e_opacity :: rat
  e_position :: string
  e_fontSize :: rat
  e_color :: string
  e_innerText :: string
  e_value :: string
  e_parent :: "nat option"
  e_nextSiblings :: "nat list"
  e_descendants :: "nat list"
  e_className :: string
  e_cloneText :: string

text \<open>
  \<open>e_opacity\<close> is \<^verbatim>\<open>Number(style.opacity || 1)\<close>, \<open>e_fontSize\<close> is
  \<^verbatim>\<open>parseFloat(style.fontSize || "0") || 0\<close> and \<open>e_color\<close> is the computed
  \<^verbatim>\<open>color\<close>; \<open>e_parent\<close> is \<open>None\<close> when the parent is \<^verbatim>\<open>document.body\<close>;
  \<open>e_nextSiblings\<close> are the following element siblings, nearest first;
  \<open>e_descendants\<close> are the descendants in document order; \<open>e_className\<close> is
  \<^verbatim>\<open>(el.className || "").toString()\<close>.
\<close>

definition el_at :: "elem list \<Rightarrow> nat \<Rightarrow> elem option" where
  "el_at els i = (if i < length els then Some (els ! i) else None)"

text \<open>Attribute selectors: \<^verbatim>\<open>[a]\<close>, \<^verbatim>\<open>[a='v']\<close> and \<^verbatim>\<open>[a*='v' i]\<close>.\<close>

definition has_attr :: "elem \<Rightarrow> string \<Rightarrow> bool" where
  "has_attr el a = (map_of (e_attrs el) a \<noteq> None)"

definition attr_is :: "elem \<Rightarrow> string \<Rightarrow> string \<Rightarrow> bool" where
  "attr_is el a v = (map_of (e_attrs el) a = Some v)"

fun starts_with_ci :: "string \<Rightarrow> string \<Rightarrow> bool" where
  "starts_with_ci [] s = True"
| "starts_with_ci (p # ps) [] = False"
| "starts_with_ci (p # ps) (c # cs) = (lower_ascii p = lower_ascii c \<and> starts_with_ci ps cs)"

fun contains_ci :: "string \<Rightarrow> string \<Rightarrow> bool" where
  "contains_ci sub [] = (sub = [])"
| "contains_ci sub (c # cs) = (starts_with_ci sub (c # cs) \<or> contains_ci sub cs)"

definition attr_contains_ci :: "elem \<Rightarrow> string \<Rightarrow> string \<Rightarrow> bool" where
  "attr_contains_ci el a v =
     (case map_of (e_attrs el) a of None \<Rightarrow> False | Some s \<Rightarrow> contains_ci v s)"

text \<open>The indices of the elements that satisfy a selector, in document order.\<close>

definition querySelectorAll :: "(elem \<Rightarrow> bool) \<Rightarrow> elem list \<Rightarrow> nat list" where
  "querySelectorAll sel els = filter (\<lambda>i. sel (els ! i)) [0..<length els]"

text \<open>
  \<^verbatim>\<open>el.querySelector(sel)\<close> as a truth value, and \<^verbatim>\<open>el.querySelectorAll(sel)\<close>: over
  the descendants of the element.
\<close>

definition descendantsMatching :: "elem list \<Rightarrow> (elem \<Rightarrow> bool) \<Rightarrow> elem \<Rightarrow> nat list" where
  "descendantsMatching els sel el =
     filter (\<lambda>i. case el_at els i of None \<Rightarrow> False | Some d \<Rightarrow> sel d) (e_descendants el)"

definition hasDescendant :: "elem list \<Rightarrow> (elem \<Rightarrow> bool) \<Rightarrow> elem \<Rightarrow> bool" where
  "hasDescendant els sel el = (descendantsMatching els sel el \<noteq> [])"

definition tag_in :: "string list \<Rightarrow> elem \<Rightarrow> bool" where
  "tag_in tags el = (e_tagName el \<in> set tags)"

text \<open>Lines 11--22 and 62--65; \<open>hb\<close> is the hero boundary \<^verbatim>\<open>heroBottom\<close>.\<close>

definition isVisible :: "elem \<Rightarrow> bool" where
  "isVisible el =
     (if e_display el = ''none'' \<or> e_visibility el = ''hidden'' then False
      else if e_opacity el = 0 then False
      else rwidth (e_rect el) > 0 \<and> rheight (e_rect el) > 0)"


definition inHero :: "rat \<Rightarrow> elem \<Rightarrow> bool" where
  "inHero hb el = (rbottom (e_rect el) > 0 \<and> rtop (e_rect el) < hb)"














section \<open>Commerce signals (lines 873--931, 966)\<close>

text \<open>
  Line 876:
  \<^verbatim>\<open>/\$\d+|\d+[.,]\d{2}\s*(USD|EUR|GBP|SGD|AUD|MYR|THB|PHP|IDR|VND|HKD|KRW|JPY|INR|BRL|CAD)?|\d+%\s*off/i\<close>
\<close>

definition priceRegex :: rx where
  "priceRegex = alts
     [Seq (chr CHR ''$'') (plus digit),
      seqs [plus digit, Pred (\<lambda>c. c \<in> set ''.,''), digit, digit, Star space,
            opt (alts (map strI
              [''USD'', ''EUR'', ''GBP'', ''SGD'', ''AUD'', ''MYR'', ''THB'', ''PHP'',
               ''IDR'', ''VND'', ''HKD'', ''KRW'', ''JPY'', ''INR'', ''BRL'', ''CAD'']))],
      seqs [plus digit, chr CHR ''%'', Star space, strI ''off'']]"

text \<open>
  Line 913:
  \<^verbatim>\<open>/^(add\s*to\s*cart|add\s*to\s*bag|add\s*to\s*basket|buy\s*now|shop\s*now|quick\s*add|quick\s*shop)\s*$/i\<close>
\<close>

definition addToCartRegex :: rx where
  "addToCartRegex =
     seqs [Bol,
           phrases [[''add'', ''to'', ''cart''], [''add'', ''to'', ''bag''],
                    [''add'', ''to'', ''basket''], [''buy'', ''now''], [''shop'', ''now''],
                    [''quick'', ''add''], [''quick'', ''shop'']],
           Star space, Eol]"

text \<open>
  Lines 914--916: the visible buttons and links of the hero, selected by
  \<^verbatim>\<open>button, a, [role='button']\<close>, whose trimmed text is an add-to-cart label.
\<close>

definition sel_button :: "elem \<Rightarrow> bool" where
  "sel_button el = (tag_in [''BUTTON'', ''A''] el \<or> attr_is el ''role'' ''button'')"

definition heroButtons :: "rat \<Rightarrow> elem list \<Rightarrow> nat list" where
  "heroButtons hb els =
     filter (\<lambda>i. inHero hb (els ! i) \<and> isVisible (els ! i))
       (querySelectorAll sel_button els)"

definition addToCartCount :: "rat \<Rightarrow> elem list \<Rightarrow> nat" where
  "addToCartCount hb els =
     length (filter (\<lambda>i. test addToCartRegex (trim (e_innerText (els ! i))))
               (heroButtons hb els))"

text \<open>
  Lines 919--925, the selector
  \<^verbatim>\<open>[class*='product' i], [class*='item-card' i], [class*='sku' i], [data-product], [data-sku], [data-item], [class*='card' i]\<close>
  and the candidate cards: its matches that are in the hero and visible.
\<close>

definition sel_productCard :: "elem \<Rightarrow> bool" where
  "sel_productCard el =
     (attr_contains_ci el ''class'' ''product'' \<or> attr_contains_ci el ''class'' ''item-card''
      \<or> attr_contains_ci el ''class'' ''sku'' \<or> has_attr el ''data-product''
      \<or> has_attr el ''data-sku'' \<or> has_attr el ''data-item''
      \<or> attr_contains_ci el ''class'' ''card'')"

definition candidateCards :: "rat \<Rightarrow> elem list \<Rightarrow> nat list" where
  "candidateCards hb els =
     filter (\<lambda>i. inHero hb (els ! i) \<and> isVisible (els ! i))
       (querySelectorAll sel_productCard els)"

text \<open>
  Lines 926--931:
  \<^verbatim>\<open>
  const productCardCount = candidateCards.filter((card) => {
    const hasImg = !!card.querySelector("img");
    const cardText = (card.innerText || "").trim();
    const hasPrice = priceRegex.test(cardText);
    return hasImg && hasPrice && cardText.length < 300;
  }).length;\<close>
\<close>

definition isCard :: "elem list \<Rightarrow> elem \<Rightarrow> bool" where
  "isCard els el =
     (let hasImg = hasDescendant els (tag_in [''IMG'']) el;
          cardText = trim (e_innerText el);
          hasPrice = test priceRegex cardText
      in hasImg \<and> hasPrice \<and> length cardText < 300)"

definition productCardCount :: "rat \<Rightarrow> elem list \<Rightarrow> nat" where
  "productCardCount hb els =
     length (filter (\<lambda>i. isCard els (els ! i)) (candidateCards hb els))"

text \<open>
  Line 966:
  \<^verbatim>\<open>productCardCount >= 2 || (addToCartCount >= 2 && hasPriceDisplay)\<close>,
  \<open>hasPriceDisplay\<close> being \<^verbatim>\<open>priceRegex.test(allHeroText)\<close> (line 881).
\<close>

definition isCommerceHero :: "nat \<Rightarrow> nat \<Rightarrow> bool \<Rightarrow> bool" where
  "isCommerceHero cards addToCart hasPriceDisplay =
     (cards \<ge> 2 \<or> (addToCart \<ge> 2 \<and> hasPriceDisplay))"

text \<open>
  The card count as the specification words it: the elements of the hero that contain
  an image and a price string and whose text is under 300 characters.
\<close>

definition spec_productCardCount :: "rat \<Rightarrow> elem list \<Rightarrow> nat" where
  "spec_productCardCount hb els =
     length (filter (\<lambda>i. inHero hb (els ! i) \<and> isVisible (els ! i)
                          \<and> isCard els (els ! i)) [0..<length els])"

section \<open>Text role classifier (lines 124--312)\<close>



































section \<open>Call-to-action extraction (lines 337--368)\<close>











section \<open>Subheadline (lines 430--593)\<close>



















section \<open>Composite signals and the fingerprint\<close>

















section \<open>Example documents\<close>

text \<open>
  An element with a box and a text, displayed and in normal flow, in black 16 pixel
  type, a child of the body without siblings or descendants.
\<close>

definition basicEl :: "string \<Rightarrow> (string \<times> string) list \<Rightarrow> rect \<Rightarrow> string \<Rightarrow> elem" where
  "basicEl tag attrs r text =
     \<lparr>e_tagName = tag, e_attrs = attrs, e_rect = r, e_display = ''block'',
      e_visibility = ''visible'', e_opacity = 1, e_position = ''static'', e_fontSize = 16,
      e_color = ''rgb(0, 0, 0)'', e_innerText = text, e_value = [], e_parent = None,
      e_nextSiblings = [], e_descendants = [],
      e_className = (case map_of attrs ''class'' of None \<Rightarrow> [] | Some v \<Rightarrow> v),
      e_cloneText = text\<rparr>"

text \<open>
  Three cards side by side in the hero, each a \<^verbatim>\<open>div\<close> of the given class holding an
  image and a short text with a price; no button, no link.
\<close>

definition shopCards :: "string \<Rightarrow> elem list" where
  "shopCards cls =
     [(basicEl ''DIV'' [(''class'', cls)]
         \<lparr>rtop = 300, rleft = 0, rwidth = 300, rheight = 300, rbottom = 600\<rparr>
         ''Trail shoe $49'')\<lparr>e_nextSiblings := [2, 4], e_descendants := [1]\<rparr>,
      (basicEl ''IMG'' [(''src'', ''/a.png'')]
         \<lparr>rtop = 300, rleft = 0, rwidth = 300, rheight = 200, rbottom = 500\<rparr>
         [])\<lparr>e_parent := Some 0\<rparr>,
      (basicEl ''DIV'' [(''class'', cls)]
         \<lparr>rtop = 300, rleft = 320, rwidth = 300, rheight = 300, rbottom = 600\<rparr>
         ''Road shoe 59,90 EUR'')\<lparr>e_nextSiblings := [4], e_descendants := [3]\<rparr>,
      (basicEl ''IMG'' [(''src'', ''/b.png'')]
         \<lparr>rtop = 300, rleft = 320, rwidth = 300, rheight = 200, rbottom = 500\<rparr>
         [])\<lparr>e_parent := Some 2\<rparr>,
      (basicEl ''DIV'' [(''class'', cls)]
         \<lparr>rtop = 300, rleft = 640, rwidth = 300, rheight = 300, rbottom = 600\<rparr>
         ''Sandal 20% off'')\<lparr>e_descendants := [5]\<rparr>,
      (basicEl ''IMG'' [(''src'', ''/c.png'')]
         \<lparr>rtop = 300, rleft = 640, rwidth = 300, rheight = 200, rbottom = 500\<rparr>
         [])\<lparr>e_parent := Some 4\<rparr>]"






chapter \<open>Properties\<close>

section \<open>Properties of the hero boundary\<close>

lemma heroLoop_closed:
  "heroLoop cap hb ss =
     (if scanned cap ss = [] then hb
      else min cap (max hb (Max (set (map rbottom (scanned cap ss))))))"
proof (induction ss arbitrary: hb)
  case Nil
  show ?case by (simp add: scanned_def)
next
  case (Cons s ss)
  show ?case
  proof (cases "rbottom s \<le> 0")
    case True
    then show ?thesis using Cons.IH [of hb] by (simp add: scanned_def)
  next
    case off: False
    show ?thesis
    proof (cases "rtop s \<ge> cap")
      case True
      then show ?thesis using off by (simp add: scanned_def)
    next
      case False
      have sc: "scanned cap (s # ss) = s # scanned cap ss"
        using off False by (simp add: scanned_def)
      show ?thesis
      proof (cases "scanned cap ss = []")
        case True
        then show ?thesis
          using off False sc Cons.IH [of "min cap (max hb (rbottom s))"] by simp
      next
        case ne: False
        have fin: "finite (set (map rbottom (scanned cap ss)))" by simp
        have nem: "set (map rbottom (scanned cap ss)) \<noteq> {}" using ne by simp
        have "Max (set (map rbottom (scanned cap (s # ss)))) =
                max (rbottom s) (Max (set (map rbottom (scanned cap ss))))"
          using sc Max_insert [OF fin nem] by simp
        then show ?thesis
          using off False sc ne Cons.IH [of "min cap (max hb (rbottom s))"]
          by (simp add: min_def max_def)
      qed
    qed
  qed
qed

lemma heroLoop_ge: "hb \<le> cap \<Longrightarrow> hb \<le> heroLoop cap hb ss"
proof (induction ss arbitrary: hb)
  case Nil
  show ?case by simp
next
  case (Cons s ss)
  let ?hb' = "min cap (max hb (rbottom s))"
  have le: "hb \<le> ?hb'" using Cons.prems by (simp add: min_def max_def)
  have "?hb' \<le> heroLoop cap ?hb' ss" by (rule Cons.IH) simp
  with le have "hb \<le> heroLoop cap ?hb' ss" by (rule order_trans)
  then show ?case using Cons.IH [OF Cons.prems] by simp
qed

text \<open>
  Claim C1, as amended. The boundary is \<open>max vh\<close> of the largest bottom edge among the
  scanned sections, capped at \<open>1.15 vh\<close>, and \<open>vh\<close> when nothing is scanned. The
  scanned sections are the on-screen ones (\<open>bottom > 0\<close>) before the first on-screen
  section whose top edge is at the cap or beyond it (\<open>top \<ge> 1.15 vh\<close>): such a section,
  also one that starts exactly at the cap, is excluded and ends the scan, whatever
  follows it.
\<close>

theorem heroBottom_scanned:
  "heroBottom vh ss =
     (if scanned (heroMaxBottom vh) ss = [] then vh
      else min (heroMaxBottom vh)
             (max vh (Max (set (map rbottom (scanned (heroMaxBottom vh) ss))))))
   \<and> (heroMaxBottom vh \<le> rtop s \<and> 0 < rbottom s \<longrightarrow>
        heroBottom vh (pre @ s # post) = heroBottom vh pre)"
proof
  show "heroBottom vh ss =
     (if scanned (heroMaxBottom vh) ss = [] then vh
      else min (heroMaxBottom vh)
             (max vh (Max (set (map rbottom (scanned (heroMaxBottom vh) ss))))))"
    unfolding heroBottom_def by (rule heroLoop_closed)
next
  have stop: "heroLoop cap hb (pre @ s # post) = heroLoop cap hb pre"
    if "cap \<le> rtop s" "0 < rbottom s" for cap hb
    using that by (induction pre arbitrary: hb) auto
  show "heroMaxBottom vh \<le> rtop s \<and> 0 < rbottom s \<longrightarrow>
        heroBottom vh (pre @ s # post) = heroBottom vh pre"
    unfolding heroBottom_def using stop by blast
qed

theorem heroBottom_scanned_witness:
  "heroBottom 900
     [\<lparr>rtop = 0, rleft = 0, rwidth = 1440, rheight = 1000, rbottom = 1000\<rparr>,
      \<lparr>rtop = 1035, rleft = 0, rwidth = 1440, rheight = 500, rbottom = 1535\<rparr>,
      \<lparr>rtop = 0, rleft = 0, rwidth = 1440, rheight = 1020, rbottom = 1020\<rparr>]
   = heroBottom 900
     [\<lparr>rtop = 0, rleft = 0, rwidth = 1440, rheight = 1000, rbottom = 1000\<rparr>]
   \<and> heroBottom 900
     [\<lparr>rtop = 0, rleft = 0, rwidth = 1440, rheight = 1000, rbottom = 1000\<rparr>] = 1000"
  using heroBottom_scanned
    [of 900 "[\<lparr>rtop = 0, rleft = 0, rwidth = 1440, rheight = 1000, rbottom = 1000\<rparr>]"
        "\<lparr>rtop = 1035, rleft = 0, rwidth = 1440, rheight = 500, rbottom = 1535\<rparr>"
        "[\<lparr>rtop = 0, rleft = 0, rwidth = 1440, rheight = 1000, rbottom = 1000\<rparr>]"
        "[\<lparr>rtop = 0, rleft = 0, rwidth = 1440, rheight = 1020, rbottom = 1020\<rparr>]"]
  by (simp add: heroMaxBottom_def scanned_def)

text \<open>
  Claim C1 as stated fails. With a 900 pixel viewport (cap 1035), a first section lying
  below the cap stops the loop, so the qualifying section after it is never read: the
  code answers 900, the stated maximum is 1000, and exchanging the two sections changes
  the answer. And a single qualifying section that ends at 500 gives 900, not 500: the
  running maximum starts at the viewport height.
\<close>

theorem heroBottom_spec_counterexample:
  "heroBottom 900
     [\<lparr>rtop = 2000, rleft = 0, rwidth = 1440, rheight = 100, rbottom = 2100\<rparr>,
      \<lparr>rtop = 0, rleft = 0, rwidth = 1440, rheight = 1000, rbottom = 1000\<rparr>] = 900
   \<and> spec_heroBottom 900
     [\<lparr>rtop = 2000, rleft = 0, rwidth = 1440, rheight = 100, rbottom = 2100\<rparr>,
      \<lparr>rtop = 0, rleft = 0, rwidth = 1440, rheight = 1000, rbottom = 1000\<rparr>] = 1000
   \<and> heroBottom 900
     [\<lparr>rtop = 0, rleft = 0, rwidth = 1440, rheight = 1000, rbottom = 1000\<rparr>,
      \<lparr>rtop = 2000, rleft = 0, rwidth = 1440, rheight = 100, rbottom = 2100\<rparr>] = 1000
   \<and> heroBottom 900
     [\<lparr>rtop = 0, rleft = 0, rwidth = 1440, rheight = 500, rbottom = 500\<rparr>] = 900
   \<and> spec_heroBottom 900
     [\<lparr>rtop = 0, rleft = 0, rwidth = 1440, rheight = 500, rbottom = 500\<rparr>] = 500"
  by (simp add: heroBottom_def spec_heroBottom_def qualifying_def heroMaxBottom_def)

text \<open>
  Claim C10. For a positive viewport height the reported \<^verbatim>\<open>hero_height_ratio\<close> is
  exactly 1, whatever the sections: the boundary starts at the viewport height and never
  drops below it.
\<close>

theorem hero_height_ratio_one:
  assumes "0 < vh"
  shows "hero_height_ratio vh ss = 1"
proof -
  have "vh \<le> heroMaxBottom vh" using assms by (simp add: heroMaxBottom_def)
  then have "vh \<le> heroBottom vh ss" unfolding heroBottom_def by (rule heroLoop_ge)
  then have "1 \<le> heroBottom vh ss / vh" using assms by (simp add: le_divide_eq)
  then have "heroHeightRatio vh ss = 1" by (simp add: heroHeightRatio_def)
  moreover have "\<lfloor>(201::rat) / 2\<rfloor> = 100" by (simp add: floor_eq_iff)
  ultimately show ?thesis by (simp add: hero_height_ratio_def toFixed2_def)
qed

theorem hero_height_ratio_one_witness:
  "(0::rat) < 900 \<and>
   hero_height_ratio 900
     [\<lparr>rtop = 0, rleft = 0, rwidth = 1440, rheight = 400, rbottom = 400\<rparr>,
      \<lparr>rtop = 400, rleft = 0, rwidth = 1440, rheight = 3000, rbottom = 3400\<rparr>] = 1"
proof -
  have h: "(0::rat) < 900" by simp
  show ?thesis
    using h hero_height_ratio_one [OF h,
      of "[\<lparr>rtop = 0, rleft = 0, rwidth = 1440, rheight = 400, rbottom = 400\<rparr>,
           \<lparr>rtop = 400, rleft = 0, rwidth = 1440, rheight = 3000, rbottom = 3400\<rparr>]"]
    by simp
qed

section \<open>Properties of the positional filter\<close>

text \<open>
  Claim C2, as amended. A surviving candidate is kept if and only if its top edge is at
  least 120 pixels down the viewport and, when a headline box exists, lies within
  \<open>[headlineTop - 40, headlineBottom + 420]\<close>. The bottom-fifth exception removes
  nothing that the window does not already remove.
\<close>

theorem keepHeroCta_iff:
  "keepHeroCta vh headlineRect c =
     (120 \<le> c_top c \<and>
      (case headlineRect of
         None \<Rightarrow> True
       | Some h \<Rightarrow> rtop h - 40 \<le> c_top c \<and> c_top c \<le> rbottom h + 420))"
  by (auto simp: keepHeroCta_def num_or_def split: option.splits)

text \<open>
  Claim C2 as stated fails: a candidate whose top edge is above 120 pixels is dropped,
  with no headline box and also inside the headline window.
\<close>

theorem keepHeroCta_spec_counterexample:
  "\<not> keepHeroCta 900 None
       \<lparr>c_text = ''Start free'', c_top = 50, c_left = 100, c_area = 4000, c_isButton = True\<rparr>
   \<and> spec_keepHeroCta 900 None
       \<lparr>c_text = ''Start free'', c_top = 50, c_left = 100, c_area = 4000, c_isButton = True\<rparr>
   \<and> \<not> keepHeroCta 900
       (Some \<lparr>rtop = 40, rleft = 100, rwidth = 600, rheight = 50, rbottom = 90\<rparr>)
       \<lparr>c_text = ''Start free'', c_top = 100, c_left = 100, c_area = 4000, c_isButton = True\<rparr>
   \<and> spec_keepHeroCta 900
       (Some \<lparr>rtop = 40, rleft = 100, rwidth = 600, rheight = 50, rbottom = 90\<rparr>)
       \<lparr>c_text = ''Start free'', c_top = 100, c_left = 100, c_area = 4000, c_isButton = True\<rparr>"
  by (simp add: keepHeroCta_def spec_keepHeroCta_def)

section \<open>Properties of the stack detector\<close>

lemma run_rules_append: "run_rules (A @ B) ds = run_rules B (run_rules A ds)"
  by (simp add: run_rules_def)

lemma run_rules_Cons: "run_rules (r # B) ds = run_rules B (push_rule r ds)"
  by (simp add: run_rules_def)

lemma run_rules_new:
  "t \<in> set (run_rules rules ds) \<Longrightarrow> t \<in> set ds \<or> t \<in> snd ` set rules"
proof (induction rules arbitrary: ds)
  case Nil
  then show ?case by (simp add: run_rules_def)
next
  case (Cons r rules)
  from Cons.prems have "t \<in> set (run_rules rules (push_rule r ds))"
    by (simp add: run_rules_Cons)
  then have "t \<in> set (push_rule r ds) \<or> t \<in> snd ` set rules" by (rule Cons.IH)
  then show ?case by (auto simp: push_rule_def split: if_splits)
qed

lemma run_rules_distinct:
  assumes "distinct ds" "distinct (map snd rules)" "set ds \<inter> snd ` set rules = {}"
  shows "distinct (run_rules rules ds)"
  using assms
proof (induction rules arbitrary: ds)
  case Nil
  then show ?case by (simp add: run_rules_def)
next
  case (Cons r rules)
  have d: "distinct (push_rule r ds)"
    using Cons.prems by (auto simp: push_rule_def)
  have i: "set (push_rule r ds) \<inter> snd ` set rules = {}"
    using Cons.prems by (auto simp: push_rule_def)
  have "distinct (run_rules rules (push_rule r ds))"
    using d _ i by (rule Cons.IH) (use Cons.prems in simp)
  then show ?case by (simp add: run_rules_Cons)
qed

text \<open>
  A tag \<open>t\<close> pushed by one rule only, whose condition requires \<open>u\<close> to be absent, never
  stands beside \<open>u\<close> when no later rule pushes \<open>u\<close>.
\<close>

lemma run_rules_suppress:
  assumes t0: "t \<notin> set ds0" and tA: "t \<notin> snd ` set A" and tB: "t \<notin> snd ` set B"
    and uB: "u \<notin> snd ` set B" and ut: "u \<noteq> t"
    and c: "\<And>ds. c ds \<Longrightarrow> u \<notin> set ds"
    and mem: "t \<in> set (run_rules (A @ (c, t) # B) ds0)"
  shows "u \<notin> set (run_rules (A @ (c, t) # B) ds0)"
proof -
  let ?d1 = "run_rules A ds0"
  have fin: "run_rules (A @ (c, t) # B) ds0 = run_rules B (push_rule (c, t) ?d1)"
    by (simp add: run_rules_append run_rules_Cons)
  have t1: "t \<notin> set ?d1" using run_rules_new [of t A ds0] t0 tA by blast
  have holds: "c ?d1"
  proof (rule ccontr)
    assume "\<not> c ?d1"
    then have "run_rules (A @ (c, t) # B) ds0 = run_rules B ?d1"
      using fin by (simp add: push_rule_def)
    with mem have "t \<in> set (run_rules B ?d1)" by simp
    then show False using run_rules_new [of t B ?d1] t1 tB by blast
  qed
  then have u1: "u \<notin> set ?d1" by (rule c)
  show ?thesis
  proof
    assume "u \<in> set (run_rules (A @ (c, t) # B) ds0)"
    then have "u \<in> set (run_rules B (?d1 @ [t]))"
      using fin holds by (simp add: push_rule_def)
    then have "u \<in> set (?d1 @ [t]) \<or> u \<in> snd ` set B" by (rule run_rules_new)
    then show False using u1 ut uB by auto
  qed
qed

lemma react_suppressed:
  assumes "u \<in> {''nextjs'', ''gatsby'', ''remix''}"
    and "''react'' \<in> set (detectedStack g)"
  shows "u \<notin> set (detectedStack g)"
proof -
  let ?A = "framework_rules g @ [vue_rule g]"
  let ?c = "fst (react_rule g)"
  have shape: "detectedStack g = run_rules (?A @ (?c, ''react'') # later_rules g) []"
    by (simp add: detectedStack_def react_rule_def)
  show ?thesis
    unfolding shape
  proof (rule run_rules_suppress)
    show "''react'' \<notin> set []" by simp
    show "''react'' \<notin> snd ` set ?A" by (simp add: framework_rules_def vue_rule_def)
    show "''react'' \<notin> snd ` set (later_rules g)" by (simp add: later_rules_def)
    show "u \<notin> snd ` set (later_rules g)" using assms(1) by (auto simp: later_rules_def)
    show "u \<noteq> ''react''" using assms(1) by auto
    show "\<And>ds. ?c ds \<Longrightarrow> u \<notin> set ds" using assms(1) by (auto simp: react_rule_def)
    show "''react'' \<in> set (run_rules (?A @ (?c, ''react'') # later_rules g) [])"
      using assms(2) unfolding shape .
  qed
qed

lemma vue_suppressed:
  assumes "u \<in> {''nuxt'', ''vitepress''}"
    and "''vue'' \<in> set (detectedStack g)"
  shows "u \<notin> set (detectedStack g)"
proof -
  let ?B = "react_rule g # later_rules g"
  let ?c = "fst (vue_rule g)"
  have shape: "detectedStack g = run_rules (framework_rules g @ (?c, ''vue'') # ?B) []"
    by (simp add: detectedStack_def vue_rule_def)
  show ?thesis
    unfolding shape
  proof (rule run_rules_suppress)
    show "''vue'' \<notin> set []" by simp
    show "''vue'' \<notin> snd ` set (framework_rules g)" by (simp add: framework_rules_def)
    show "''vue'' \<notin> snd ` set ?B" by (simp add: later_rules_def react_rule_def)
    show "u \<notin> snd ` set ?B" using assms(1) by (auto simp: later_rules_def react_rule_def)
    show "u \<noteq> ''vue''" using assms(1) by auto
    show "\<And>ds. ?c ds \<Longrightarrow> u \<notin> set ds" using assms(1) by (auto simp: vue_rule_def)
    show "''vue'' \<in> set (run_rules (framework_rules g @ (?c, ''vue'') # ?B) [])"
      using assms(2) unfolding shape .
  qed
qed

lemma detectedStack_distinct: "distinct (detectedStack g)"
  unfolding detectedStack_def
  by (rule run_rules_distinct)
     (simp_all add: framework_rules_def vue_rule_def react_rule_def later_rules_def)

text \<open>
  Claim C7. Whatever the page signals, \<^verbatim>\<open>detected_stack\<close> has no tag twice, never
  holds \<open>react\<close> together with \<open>nextjs\<close>, \<open>gatsby\<close> or \<open>remix\<close>, and never holds \<open>vue\<close>
  together with \<open>nuxt\<close> or \<open>vitepress\<close>.
\<close>

theorem detectedStack_suppression:
  "distinct (detectedStack g)
   \<and> \<not> (''react'' \<in> set (detectedStack g) \<and>
          (''nextjs'' \<in> set (detectedStack g) \<or> ''gatsby'' \<in> set (detectedStack g)
           \<or> ''remix'' \<in> set (detectedStack g)))
   \<and> \<not> (''vue'' \<in> set (detectedStack g) \<and>
          (''nuxt'' \<in> set (detectedStack g) \<or> ''vitepress'' \<in> set (detectedStack g)))"
proof (intro conjI)
  show "distinct (detectedStack g)" by (rule detectedStack_distinct)
next
  show "\<not> (''react'' \<in> set (detectedStack g) \<and>
          (''nextjs'' \<in> set (detectedStack g) \<or> ''gatsby'' \<in> set (detectedStack g)
           \<or> ''remix'' \<in> set (detectedStack g)))"
    using react_suppressed [of "''nextjs''" g] react_suppressed [of "''gatsby''" g]
      react_suppressed [of "''remix''" g]
    by blast
next
  show "\<not> (''vue'' \<in> set (detectedStack g) \<and>
          (''nuxt'' \<in> set (detectedStack g) \<or> ''vitepress'' \<in> set (detectedStack g)))"
    using vue_suppressed [of "''nuxt''" g] vue_suppressed [of "''vitepress''" g]
    by blast
qed

text \<open>
  A page that shows the Next.js, Nuxt, generic React and generic Vue markers and
  Tailwind class names is tagged with the two meta-frameworks only.
\<close>

theorem detectedStack_suppression_witness:
  "detectedStack
     \<lparr>sg_hasNext = True, sg_webflow = False, sg_framer = False, sg_gatsby = False,
      sg_nuxt = True, sg_remix = False, sg_astro = False, sg_hugo = False,
      sg_sveltekit = False, sg_wordpress = False, sg_shopify = False, sg_wix = False,
      sg_squarespace = False, sg_vitepress = False, sg_vue = True, sg_hasReact = True,
      sg_angular = False, sg_tailwindClasses = True, sg_bootstrapHits = 2,
      sg_materialUi = False, sg_chakraUi = False, sg_radix = False, sg_antDesign = False,
      sg_emotion = False, sg_styledComponents = False, sg_cssModules = False,
      sg_vercel = False, sg_netlify = False, sg_cloudflare = False, sg_awsAmplify = False,
      sg_gsap = False, sg_lottie = False, sg_framerMotion = False\<rparr>
   = [''nextjs'', ''nuxt'', ''tailwind'']
   \<and> distinct (detectedStack
     \<lparr>sg_hasNext = True, sg_webflow = False, sg_framer = False, sg_gatsby = False,
      sg_nuxt = True, sg_remix = False, sg_astro = False, sg_hugo = False,
      sg_sveltekit = False, sg_wordpress = False, sg_shopify = False, sg_wix = False,
      sg_squarespace = False, sg_vitepress = False, sg_vue = True, sg_hasReact = True,
      sg_angular = False, sg_tailwindClasses = True, sg_bootstrapHits = 2,
      sg_materialUi = False, sg_chakraUi = False, sg_radix = False, sg_antDesign = False,
      sg_emotion = False, sg_styledComponents = False, sg_cssModules = False,
      sg_vercel = False, sg_netlify = False, sg_cloudflare = False, sg_awsAmplify = False,
      sg_gsap = False, sg_lottie = False, sg_framerMotion = False\<rparr>)"
  using detectedStack_suppression
    [of "\<lparr>sg_hasNext = True, sg_webflow = False, sg_framer = False, sg_gatsby = False,
      sg_nuxt = True, sg_remix = False, sg_astro = False, sg_hugo = False,
      sg_sveltekit = False, sg_wordpress = False, sg_shopify = False, sg_wix = False,
      sg_squarespace = False, sg_vitepress = False, sg_vue = True, sg_hasReact = True,
      sg_angular = False, sg_tailwindClasses = True, sg_bootstrapHits = 2,
      sg_materialUi = False, sg_chakraUi = False, sg_radix = False, sg_antDesign = False,
      sg_emotion = False, sg_styledComponents = False, sg_cssModules = False,
      sg_vercel = False, sg_netlify = False, sg_cloudflare = False, sg_awsAmplify = False,
      sg_gsap = False, sg_lottie = False, sg_framerMotion = False\<rparr>"]
  by (simp add: detectedStack_def run_rules_def push_rule_def framework_rules_def
        vue_rule_def react_rule_def later_rules_def)

section \<open>Properties of the call-to-action ranking\<close>




lemma insort_cmp_set: "set (insort_cmp cmp x ys) = insert x (set ys)"
  by (induction ys) auto


lemma insort_cmp_distinct:
  "distinct (map f (insort_cmp cmp x ys)) = distinct (map f (x # ys))"
  by (induction ys) (auto simp: insort_cmp_set)


lemma sort_cmp_Cons: "sort_cmp cmp (x # xs) = insort_cmp cmp x (sort_cmp cmp xs)"
  by (simp add: sort_cmp_def)

lemma sort_cmp_Nil: "sort_cmp cmp [] = []"
  by (simp add: sort_cmp_def)

lemma sort_cmp_set: "set (sort_cmp cmp xs) = set xs"
  by (induction xs) (simp_all add: sort_cmp_Nil sort_cmp_Cons insort_cmp_set)


lemma sort_cmp_distinct: "distinct (map f (sort_cmp cmp xs)) = distinct (map f xs)"
  by (induction xs) (simp_all add: sort_cmp_Nil sort_cmp_Cons insort_cmp_distinct sort_cmp_set)




lemma rankCtas_distinct: "distinct (map fst (rankCtas h cs))"
  by (simp add: rankCtas_def sort_cmp_distinct)












section \<open>Properties of headline rejection and truncation\<close>













section \<open>Properties of dark-theme detection\<close>




section \<open>Properties of the commerce signals\<close>

text \<open>
  Claim C3, as amended. \<^verbatim>\<open>product_card_count\<close> counts the elements that match the
  product-card selector, lie in the hero, are visible, contain an image, and whose
  trimmed text holds a price and is shorter than 300 characters. Three such elements
  make a commerce hero with no add-to-cart button at all, and \<^verbatim>\<open>is_commerce_hero\<close> is
  true exactly when there are two cards or more, or two add-to-cart buttons or more and
  a price in the hero text.
\<close>

theorem productCardCount_selected:
  "productCardCount hb els =
     length (filter (\<lambda>i. sel_productCard (els ! i) \<and> inHero hb (els ! i)
                          \<and> isVisible (els ! i) \<and> isCard els (els ! i)) [0..<length els])
   \<and> (productCardCount hb els = 3 \<longrightarrow>
        isCommerceHero (productCardCount hb els) 0 hasPriceDisplay)
   \<and> isCommerceHero cards addToCart hasPriceDisplay =
        (cards \<ge> 2 \<or> (addToCart \<ge> 2 \<and> hasPriceDisplay))"
proof (intro conjI)
  have "filter (\<lambda>i. isCard els (els ! i))
          (filter (\<lambda>i. inHero hb (els ! i) \<and> isVisible (els ! i))
             (filter (\<lambda>i. sel_productCard (els ! i)) [0..<length els]))
        = filter (\<lambda>i. sel_productCard (els ! i) \<and> inHero hb (els ! i)
                          \<and> isVisible (els ! i) \<and> isCard els (els ! i)) [0..<length els]"
    by (simp add: conj_commute conj_left_commute)
  then show "productCardCount hb els =
     length (filter (\<lambda>i. sel_productCard (els ! i) \<and> inHero hb (els ! i)
                          \<and> isVisible (els ! i) \<and> isCard els (els ! i)) [0..<length els])"
    by (simp add: productCardCount_def candidateCards_def querySelectorAll_def)
next
  show "productCardCount hb els = 3 \<longrightarrow>
        isCommerceHero (productCardCount hb els) 0 hasPriceDisplay"
    by (simp add: isCommerceHero_def)
next
  show "isCommerceHero cards addToCart hasPriceDisplay =
        (cards \<ge> 2 \<or> (addToCart \<ge> 2 \<and> hasPriceDisplay))"
    by (simp add: isCommerceHero_def)
qed

text \<open>
  The three cards of \<open>shopCards\<close> with the class \<open>product-card\<close>: three product cards,
  and a commerce hero without an add-to-cart button.
\<close>

theorem productCardCount_selected_witness:
  "productCardCount 900 (shopCards ''product-card'') = 3
   \<and> addToCartCount 900 (shopCards ''product-card'') = 0
   \<and> isCommerceHero 3 0 False"
proof -
  have three: "productCardCount 900 (shopCards ''product-card'') = 3" by code_simp
  have none: "addToCartCount 900 (shopCards ''product-card'') = 0" by code_simp
  show ?thesis
    using productCardCount_selected [of 900 "shopCards ''product-card''" False 3 0] three none
    by simp
qed

text \<open>
  Claim C3 as stated fails. The same three cards with the class \<open>tile\<close>, which the
  product-card selector does not match: each is in the hero, visible, holds an image and
  a price in a short text, and the code counts no product card; with no add-to-cart
  button the hero is not a commerce hero, although a price is displayed.
\<close>

theorem productCardCount_counterexample:
  "spec_productCardCount 900 (shopCards ''tile'') = 3
   \<and> productCardCount 900 (shopCards ''tile'') = 0
   \<and> addToCartCount 900 (shopCards ''tile'') = 0
   \<and> \<not> isCommerceHero (productCardCount 900 (shopCards ''tile''))
         (addToCartCount 900 (shopCards ''tile'')) True"
  by code_simp

section \<open>Properties of the extraction on a document without elements\<close>













end
